theory Spec2Isabelle
  imports Main
begin

section \<open>Strings as the scripts use them\<close>

text \<open>
  Python strings are modelled as \<^typ>\<open>string\<close> (lists of 8-bit characters), which covers
  the ASCII URLs, identifiers and messages both scripts handle.  \<open>show_int\<close> is the
  decimal rendering an f-string gives an integer.
\<close>

fun show_nat :: "nat \<Rightarrow> string" where
  "show_nat n =
     (if n < 10 then [char_of (48 + n)]
      else show_nat (n div 10) @ [char_of (48 + n mod 10)])"

declare show_nat.simps [simp del]

definition show_int :: "int \<Rightarrow> string" where
  "show_int i = (if i < 0 then CHR ''-'' # show_nat (nat (- i)) else show_nat (nat i))"

text \<open>\<open>str.lower()\<close> on ASCII text: the letters A to Z (codes 65 to 90) move up by 32.\<close>

definition lower_char :: "char \<Rightarrow> char" where
  "lower_char c =
     (let n = (of_char c :: nat) in if 65 \<le> n \<and> n \<le> 90 then char_of (n + 32) else c)"

definition lower :: "string \<Rightarrow> string" where
  "lower s = map lower_char s"

text \<open>\<open>k in s\<close> on strings: \<open>k\<close> occurs as a contiguous substring of \<open>s\<close>.\<close>

fun starts_with :: "string \<Rightarrow> string \<Rightarrow> bool" where
  "starts_with [] s = True"
| "starts_with (k # ks) [] = False"
| "starts_with (k # ks) (c # cs) = (k = c \<and> starts_with ks cs)"

fun str_in :: "string \<Rightarrow> string \<Rightarrow> bool" where
  "str_in k [] = (k = [])"
| "str_in k (c # cs) = (starts_with k (c # cs) \<or> str_in k cs)"

text \<open>\<open>d.get(key, default)\<close> for an optional field.\<close>

definition get_default :: "'a \<Rightarrow> 'a option \<Rightarrow> 'a" where
  "get_default d v = (case v of None \<Rightarrow> d | Some x \<Rightarrow> x)"


section \<open>Browser Session Monitor: data model\<close>

text \<open>
  A Captured Request Record is the dictionary \<open>capture_network_logs\<close> appends on a
  request event: the four keys \<open>timestamp\<close>, \<open>url\<close>, \<open>method\<close>, \<open>requestId\<close> are
  always present; \<open>status\<close>, \<open>status_text\<close>, \<open>content_type\<close>, \<open>failed\<close> and \<open>error\<close>
  are absent (\<open>None\<close>) until a later event sets them.
\<close>

record request_record =
  timestamp :: string
  url :: string
  http_method :: string
  requestId :: string
  status :: "int option"
  status_text :: "string option"
  content_type :: "string option"
  failed :: "bool option"
  error :: "string option"

text \<open>The dictionary \<open>analyze_results\<close> builds.\<close>

record analysis =
  analysis_timestamp :: string
  ais_requests_found :: nat
  successful_requests :: nat
  failed_requests :: nat
  blocked_requests :: nat
  javascript_errors :: nat
  findings :: "string list"
  raw_requests :: "request_record list"
  raw_errors :: "string list"
  root_cause :: string


section \<open>Browser Session Monitor: \<open>analyze_results\<close>\<close>

definition msg_not_implemented :: string where
  "msg_not_implemented =
     ''No AIS requests detected - layer may not be implemented or checkbox not functioning''"

definition msg_authentication :: string where
  "msg_authentication =
     ''AIS requests are being blocked (401/403) - API likely requires authentication''"

definition msg_connectivity :: string where
  "msg_connectivity =
     ''AIS requests are failing - check network connectivity or API endpoint changes''"

definition msg_rendering :: string where
  "msg_rendering = ''AIS requests successful - issue may be in data rendering/display''"

definition msg_indeterminate :: string where
  "msg_indeterminate = ''Unable to determine - requests made but no responses captured''"

text \<open>
  \<open>req.get('failed')\<close> is tested for truthiness: the key present and \<open>True\<close>.
  \<open>req.get('status_text')\<close> inside an f-string prints \<open>None\<close> when the key is absent.
\<close>

definition is_failed :: "request_record \<Rightarrow> bool" where
  "is_failed req = (failed req = Some True)"

definition fmt_opt :: "string option \<Rightarrow> string" where
  "fmt_opt v = (case v of None \<Rightarrow> ''None'' | Some s \<Rightarrow> s)"

text \<open>One iteration of the loop \<open>for req in network_requests\<close>.\<close>

definition analyze_request :: "analysis \<Rightarrow> request_record \<Rightarrow> analysis" where
  "analyze_request a req =
     (if is_failed req then
        a\<lparr>failed_requests := failed_requests a + 1,
          findings := findings a @
            [''FAILED REQUEST: '' @ url req @ '' - '' @ get_default ''Unknown error'' (error req)]\<rparr>
      else case status req of
        None \<Rightarrow> a
      | Some st \<Rightarrow>
          if 200 \<le> st \<and> st < 300 then
            a\<lparr>successful_requests := successful_requests a + 1\<rparr>
          else if st = 401 \<or> st = 403 then
            a\<lparr>blocked_requests := blocked_requests a + 1,
              findings := findings a @
                [''BLOCKED REQUEST: '' @ url req @ '' - HTTP '' @ show_int st @ '' '' @
                 fmt_opt (status_text req)]\<rparr>
          else
            a\<lparr>failed_requests := failed_requests a + 1,
              findings := findings a @
                [''HTTP ERROR: '' @ url req @ '' - '' @ show_int st @ '' '' @
                 fmt_opt (status_text req)]\<rparr>)"

text \<open>The dictionary as initialised, before the loop; \<open>root_cause\<close> is not yet set.\<close>

definition initial_analysis :: "string \<Rightarrow> request_record list \<Rightarrow> string list \<Rightarrow> analysis" where
  "initial_analysis now network_requests js_errors =
     \<lparr>analysis_timestamp = now,
      ais_requests_found = length network_requests,
      successful_requests = 0,
      failed_requests = 0,
      blocked_requests = 0,
      javascript_errors = length js_errors,
      findings = [],
      raw_requests = network_requests,
      raw_errors = js_errors,
      root_cause = []\<rparr>"

text \<open>The closing \<open>if\<close>/\<open>elif\<close> chain that sets \<open>root_cause\<close>.\<close>

definition determine_root_cause :: "analysis \<Rightarrow> analysis" where
  "determine_root_cause a =
     (if ais_requests_found a = 0 then a\<lparr>root_cause := msg_not_implemented\<rparr>
      else if blocked_requests a > 0 then a\<lparr>root_cause := msg_authentication\<rparr>
      else if failed_requests a > 0 then a\<lparr>root_cause := msg_connectivity\<rparr>
      else if successful_requests a > 0 then a\<lparr>root_cause := msg_rendering\<rparr>
      else a\<lparr>root_cause := msg_indeterminate\<rparr>)"

text \<open>\<open>now\<close> is the value of \<open>datetime.now().isoformat()\<close> at the call.\<close>

definition analyze_results :: "string \<Rightarrow> request_record list \<Rightarrow> string list \<Rightarrow> analysis" where
  "analyze_results now network_requests js_errors =
     determine_root_cause
       (foldl analyze_request (initial_analysis now network_requests js_errors) network_requests)"


section \<open>Browser Session Monitor: \<open>capture_network_logs\<close>\<close>

text \<open>
  Exceptions are values.  \<open>KeyboardInterrupt\<close> is kept apart because it is not an
  \<open>Exception\<close> in Python: an \<open>except Exception\<close> handler lets it through.
\<close>

datatype py_exc = KeyboardInterrupt | OtherException string

text \<open>
  One entry of the browser's performance log after \<open>json.loads\<close>: either the text does
  not decode (\<open>Malformed\<close>, the \<open>JSONDecodeError\<close> branch), or it is an event with a
  \<open>method\<close> and parameters.  Every parameter the loop reads with \<open>.get(key, default)\<close>
  is optional here, and the default is applied by the model where the code applies it.
  Arguments: \<open>RequestWillBeSent url method requestId\<close>,
  \<open>ResponseReceived url status statusText mimeType requestId\<close>,
  \<open>LoadingFailed requestId errorText\<close>; \<open>OtherEvent\<close> is any other method.
\<close>

datatype log_entry =
    Malformed
  | RequestWillBeSent "string option" "string option" "string option"
  | ResponseReceived "string option" "int option" "string option" "string option" "string option"
  | LoadingFailed "string option" "string option"
  | OtherEvent string

definition request_keywords :: "string list" where
  "request_keywords =
     [''ais'', ''marine'', ''traffic'', ''ship'', ''vessel'',
      ''getais'', ''marinetraffic'', ''aishub'', ''aisstream'']"

definition response_keywords :: "string list" where
  "response_keywords = [''ais'', ''marine'', ''traffic'', ''ship'', ''vessel'']"

text \<open>\<open>any(keyword in url.lower() for keyword in keywords)\<close>\<close>

definition any_keyword :: "string list \<Rightarrow> string \<Rightarrow> bool" where
  "any_keyword keywords u = list_ex (\<lambda>keyword. str_in keyword (lower u)) keywords"

text \<open>The dictionary appended on a request event; \<open>now\<close> is \<open>datetime.now().isoformat()\<close>.\<close>

definition new_record :: "string \<Rightarrow> string \<Rightarrow> string \<Rightarrow> string \<Rightarrow> request_record" where
  "new_record now u m rid =
     \<lparr>timestamp = now, url = u, http_method = m, requestId = rid,
      status = None, status_text = None, content_type = None,
      failed = None, error = None\<rparr>"

text \<open>The two \<open>for req in relevant_requests\<close> loops: every record with the identifier is updated.\<close>

definition attach_response ::
  "string \<Rightarrow> int \<Rightarrow> string \<Rightarrow> string \<Rightarrow> request_record \<Rightarrow> request_record" where
  "attach_response rid st st_text mime req =
     (if requestId req = rid
      then req\<lparr>status := Some st, status_text := Some st_text, content_type := Some mime\<rparr>
      else req)"

definition mark_failed :: "string \<Rightarrow> string \<Rightarrow> request_record \<Rightarrow> request_record" where
  "mark_failed rid error_text req =
     (if requestId req = rid then req\<lparr>failed := Some True, error := Some error_text\<rparr> else req)"

text \<open>
  The body of \<open>for log in logs\<close>.  Each entry comes with the clock reading a record
  created from it would be stamped with.
\<close>

fun process_log :: "request_record list \<Rightarrow> string \<times> log_entry \<Rightarrow> request_record list" where
  "process_log relevant_requests (now, Malformed) = relevant_requests"
| "process_log relevant_requests (now, RequestWillBeSent u m rid) =
     (if any_keyword request_keywords (get_default [] u)
      then relevant_requests @
             [new_record now (get_default [] u) (get_default [] m) (get_default [] rid)]
      else relevant_requests)"
| "process_log relevant_requests (now, ResponseReceived u st st_text mime rid) =
     (if any_keyword response_keywords (get_default [] u)
      then map (attach_response (get_default [] rid) (get_default 0 st)
                  (get_default [] st_text) (get_default [] mime)) relevant_requests
      else relevant_requests)"
| "process_log relevant_requests (now, LoadingFailed rid error_text) =
     map (mark_failed (get_default [] rid) (get_default [] error_text)) relevant_requests"
| "process_log relevant_requests (now, OtherEvent m) = relevant_requests"

text \<open>
  The \<open>while\<close> loop polls \<open>driver.get_log('performance')\<close> until the wall clock passes
  the duration.  The polls that happen inside the window are the input: each is the batch
  of entries returned, or the exception \<open>get_log\<close> raised, which is not caught here and
  leaves the function.
\<close>

type_synonym poll = "py_exc + (string \<times> log_entry) list"

fun capture_loop :: "request_record list \<Rightarrow> poll list \<Rightarrow> py_exc + request_record list" where
  "capture_loop relevant_requests [] = Inr relevant_requests"
| "capture_loop relevant_requests (Inl e # polls) = Inl e"
| "capture_loop relevant_requests (Inr logs # polls) =
     capture_loop (foldl process_log relevant_requests logs) polls"

definition capture_network_logs :: "poll list \<Rightarrow> py_exc + request_record list" where
  "capture_network_logs polls = capture_loop [] polls"


section \<open>Browser Session Monitor: locating and enabling the checkbox\<close>

text \<open>
  The page as the driver shows it.  Elements are numbered.  \<open>find_element\<close> finds an
  element, raises \<open>NoSuchElementException\<close>, or raises something else.  \<open>click\<close> on an
  element that cannot be interacted with raises; otherwise it is recorded in \<open>clicks\<close> and
  flips the element's selected state, as a click on a checkbox does.  What a click changes
  elsewhere on the page is not modelled.
\<close>

datatype selector_type = ID | CSS | XPATH

datatype lookup = Found nat | NoSuchElement | DriverError string

record page =
  find_element :: "selector_type \<Rightarrow> string \<Rightarrow> lookup"
  selected :: "nat \<Rightarrow> bool"
  interactable :: "nat \<Rightarrow> bool"
  clicks :: "nat list"

definition click :: "nat \<Rightarrow> page \<Rightarrow> py_exc + page" where
  "click e p =
     (if interactable p e
      then Inr (p\<lparr>selected := (selected p)(e := \<not> selected p e), clicks := clicks p @ [e]\<rparr>)
      else Inl (OtherException ''element not interactable''))"

definition possible_selectors :: "(selector_type \<times> string) list" where
  "possible_selectors =
     [(ID, ''checkLayerAis''),
      (CSS, ''input[id='checkLayerAis']''),
      (XPATH, ''//input[@type='checkbox' and contains(@id, 'Ais')]''),
      (XPATH, ''//label[contains(text(), 'Marine Traffic')]/../input''),
      (XPATH, ''//label[contains(text(), 'AIS')]/../input'')]"

text \<open>
  The loop of \<open>find_ais_checkbox\<close> over the remaining selectors: the first element found
  is returned, \<open>NoSuchElementException\<close> moves on to the next selector, any other
  exception leaves the function.  \<open>None\<close> is the final \<open>return None\<close>.
\<close>

fun find_first :: "page \<Rightarrow> (selector_type \<times> string) list \<Rightarrow> py_exc + nat option" where
  "find_first p [] = Inr None"
| "find_first p ((selector_type, selector) # rest) =
     (case find_element p selector_type selector of
        Found element \<Rightarrow> Inr (Some element)
      | NoSuchElement \<Rightarrow> find_first p rest
      | DriverError m \<Rightarrow> Inl (OtherException m))"

definition find_ais_checkbox :: "page \<Rightarrow> py_exc + nat option" where
  "find_ais_checkbox p = find_first p possible_selectors"

text \<open>
  The inner \<open>try\<close> of \<open>enable_ais_layer\<close>: find the View menu and click it; the bare
  \<open>except\<close> swallows every failure.  (It would also swallow a \<open>KeyboardInterrupt\<close>
  arriving during this step; the page model has no interrupts, they enter the run
  through the steps of \<open>run_full_diagnostic\<close> below.)
\<close>

definition view_menu_selector :: string where
  "view_menu_selector = ''//img[@alt='view']/..''"

definition open_view_menu :: "page \<Rightarrow> page" where
  "open_view_menu p =
     (case find_element p XPATH view_menu_selector of
        Found view_menu \<Rightarrow> (case click view_menu p of Inr p' \<Rightarrow> p' | Inl e \<Rightarrow> p)
      | NoSuchElement \<Rightarrow> p
      | DriverError m \<Rightarrow> p)"

text \<open>\<open>enable_ais_layer\<close> returns its boolean and leaves the page in the second component.\<close>

definition enable_ais_layer :: "page \<Rightarrow> bool \<times> page" where
  "enable_ais_layer p =
     (let p1 = open_view_menu p in
      case find_ais_checkbox p1 of
        Inl e \<Rightarrow> (False, p1)
      | Inr None \<Rightarrow> (False, p1)
      | Inr (Some ais_checkbox) \<Rightarrow>
          if selected p1 ais_checkbox then (True, p1)
          else (case click ais_checkbox p1 of
                  Inr p2 \<Rightarrow> (True, p2)
                | Inl e \<Rightarrow> (False, p1)))"


section \<open>Browser Session Monitor: \<open>run_full_diagnostic\<close> and \<open>main\<close>\<close>

text \<open>
  Everything the run reads from outside: whether \<open>webdriver.Chrome\<close> raises, how the
  page load ends, the page, the performance-log polls of the capture window (they may
  depend on the page the toggle step left), the browser console log, whether saving the
  screenshot, writing the report or \<open>driver.quit\<close> raises, and the clock.  Printing is
  not modelled.
\<close>

datatype load_outcome = Loaded | TimeoutException | LoadRaised py_exc

record env =
  chrome_start :: "py_exc option"
  page_load :: load_outcome
  start_page :: page
  performance_polls :: "page \<Rightarrow> poll list"
  browser_log :: "py_exc + (string \<times> string) list"
  screenshot_save :: "py_exc option"
  report_write :: "py_exc option"
  driver_quit :: "py_exc option"
  now_iso :: string
  now_stamp :: string

text \<open>
  \<open>setup_driver\<close> and \<open>load_openseamap\<close> turn an \<open>Exception\<close> into \<open>False\<close>; a
  \<open>KeyboardInterrupt\<close> passes their handlers.
\<close>

definition setup_driver :: "env \<Rightarrow> py_exc + bool" where
  "setup_driver env =
     (case chrome_start env of
        None \<Rightarrow> Inr True
      | Some KeyboardInterrupt \<Rightarrow> Inl KeyboardInterrupt
      | Some (OtherException m) \<Rightarrow> Inr False)"

definition load_openseamap :: "env \<Rightarrow> py_exc + bool" where
  "load_openseamap env =
     (case page_load env of
        Loaded \<Rightarrow> Inr True
      | TimeoutException \<Rightarrow> Inr False
      | LoadRaised KeyboardInterrupt \<Rightarrow> Inl KeyboardInterrupt
      | LoadRaised (OtherException m) \<Rightarrow> Inr False)"

text \<open>Console entries are pairs of level and message.\<close>

definition js_error_lines :: "(string \<times> string) list \<Rightarrow> string list" where
  "js_error_lines logs =
     map (\<lambda>(level, message). level @ '': '' @ message)
       (filter (\<lambda>(level, message). level = ''SEVERE'' \<or> level = ''ERROR'') logs)"

definition check_javascript_errors :: "env \<Rightarrow> py_exc + string list" where
  "check_javascript_errors env =
     (case browser_log env of
        Inr logs \<Rightarrow> Inr (js_error_lines logs)
      | Inl KeyboardInterrupt \<Rightarrow> Inl KeyboardInterrupt
      | Inl (OtherException m) \<Rightarrow> Inr [])"

definition take_screenshot :: "env \<Rightarrow> py_exc + string option" where
  "take_screenshot env =
     (case screenshot_save env of
        None \<Rightarrow> Inr (Some (''openseamap_ais_'' @ now_stamp env @ ''.png''))
      | Some KeyboardInterrupt \<Rightarrow> Inl KeyboardInterrupt
      | Some (OtherException m) \<Rightarrow> Inr None)"

text \<open>
  What \<open>run_full_diagnostic\<close> returns: the dictionary with the single key \<open>error\<close>, or
  the analysis with the \<open>screenshot\<close> key added.
\<close>

datatype diag_result = ErrorResult string | AnalysisResult analysis "string option"

text \<open>
  The body of the \<open>try\<close> block.  The result of \<open>enable_ais_layer\<close> only selects what is
  printed: both branches go on to the capture.
\<close>

definition diagnostic_body :: "env \<Rightarrow> py_exc + diag_result" where
  "diagnostic_body env =
     (case load_openseamap env of
        Inl e \<Rightarrow> Inl e
      | Inr False \<Rightarrow> Inr (ErrorResult ''Failed to load OpenSeaMap'')
      | Inr True \<Rightarrow>
          (case enable_ais_layer (start_page env) of
             (enabled, p) \<Rightarrow>
               (case capture_network_logs (performance_polls env p) of
                  Inl e \<Rightarrow> Inl e
                | Inr network_requests \<Rightarrow>
                    (case check_javascript_errors env of
                       Inl e \<Rightarrow> Inl e
                     | Inr js_errors \<Rightarrow>
                         (case take_screenshot env of
                            Inl e \<Rightarrow> Inl e
                          | Inr screenshot \<Rightarrow>
                              (case report_write env of
                                 Some e \<Rightarrow> Inl e
                               | None \<Rightarrow>
                                   Inr (AnalysisResult
                                          (analyze_results (now_iso env) network_requests js_errors)
                                          screenshot)))))))"

text \<open>The \<open>finally\<close> clause: \<open>driver.quit()\<close> runs on every path, and if it raises, that is the outcome.\<close>

definition finally_quit :: "env \<Rightarrow> py_exc + diag_result \<Rightarrow> py_exc + diag_result" where
  "finally_quit env r = (case driver_quit env of Some e \<Rightarrow> Inl e | None \<Rightarrow> r)"

definition run_full_diagnostic :: "env \<Rightarrow> py_exc + diag_result" where
  "run_full_diagnostic env =
     (case setup_driver env of
        Inl e \<Rightarrow> Inl e
      | Inr False \<Rightarrow> Inr (ErrorResult ''Failed to initialize WebDriver'')
      | Inr True \<Rightarrow> finally_quit env (diagnostic_body env))"




section \<open>Connectivity Prober: the network and the probes\<close>

text \<open>
  A call of \<open>requests.get\<close> is described by its URL, its \<open>params\<close>, its \<open>headers\<close> and
  its \<open>timeout\<close> argument in seconds (\<open>None\<close> when the call passes none).
  \<open>socket.gethostbyname\<close> takes the host name and nothing else.
\<close>

record http_request =
  get_url :: string
  get_params :: "(string \<times> string) list"
  get_headers :: "(string \<times> string) list"
  get_timeout :: "nat option"

datatype net_call = HttpGet http_request | GetHostByName string

text \<open>
  An issue of the tracker as the script reads it: \<open>title\<close>, \<open>number\<close>, \<open>state\<close>, each key
  possibly missing.  A decoded body is a list, or something else; \<open>JsonOther\<close> carries the
  message of the exception Python raises when the value is used as a list of issues.
  \<open>resp_json\<close> is the outcome of \<open>response.json()\<close>: the decoded body, or on the left
  the text of the exception raised.  \<open>resp_json_str\<close> is \<open>str(data)\<close> of the decoded body.
\<close>

record issue =
  issue_title :: "string option"
  issue_number :: "int option"
  issue_state :: "string option"

datatype json_value = JsonList "issue list" | JsonOther string

record http_response =
  status_code :: int
  header_content_type :: "string option"
  content_length :: nat
  resp_text :: string
  resp_json :: "string + json_value"
  resp_json_str :: string

text \<open>
  How a \<open>requests.get\<close> ends: a response, \<open>requests.exceptions.Timeout\<close>,
  \<open>requests.exceptions.ConnectionError\<close>, or another exception; the string is \<open>str(e)\<close>.
\<close>

datatype http_outcome =
  Response http_response | Timeout string | ConnectionError string | RequestError string

datatype dns_outcome = Resolved string | GaiError | DnsError string

record network =
  http_get :: "http_request \<Rightarrow> http_outcome"
  gethostbyname :: "string \<Rightarrow> dns_outcome"

type_synonym probe_result = "bool \<times> string"

text \<open>\<open>str(e)\<close> of whatever exception ended the call, for the \<open>except Exception\<close> handlers.\<close>

definition exception_text :: "http_outcome \<Rightarrow> string" where
  "exception_text out =
     (case out of Response r \<Rightarrow> [] | Timeout m \<Rightarrow> m | ConnectionError m \<Rightarrow> m | RequestError m \<Rightarrow> m)"

definition error_result :: "string \<Rightarrow> probe_result" where
  "error_result m = (False, ''Error: '' @ take 100 m)"

definition quote :: string where
  "quote = [CHR 0x27]"

text \<open>
  Each probe returns its Probe Result and the network calls it issued.  The tile indices
  \<open>x\<close> and \<open>y\<close> are computed in floating point from latitude and longitude; they are
  taken as given.
\<close>

definition marinetraffic_tiles_request :: "int \<Rightarrow> int \<Rightarrow> int \<Rightarrow> http_request" where
  "marinetraffic_tiles_request zoom x y =
     \<lparr>get_url = ''https://tiles.marinetraffic.com/ais_helpers/shiptilesingle.aspx'' @
                ''?output=png&sat=1&grouping=shiptype&tile_size=512&legends=1'' @
                ''&zoom='' @ show_int zoom @ ''&X='' @ show_int x @ ''&Y='' @ show_int y,
      get_params = [],
      get_headers = [(''User-Agent'', ''OpenSeaMap-Diagnostic/1.0'')],
      get_timeout = Some 10\<rparr>"

definition test_marinetraffic_tiles ::
  "network \<Rightarrow> int \<Rightarrow> int \<Rightarrow> int \<Rightarrow> probe_result \<times> net_call list" where
  "test_marinetraffic_tiles net zoom x y =
     (let request = marinetraffic_tiles_request zoom x y in
      (case http_get net request of
         Response response \<Rightarrow>
           if status_code response = 200 then
             (let content_type = get_default [] (header_content_type response) in
              if str_in ''image'' content_type
              then (True, ''Tile service responding (HTTP '' @ show_int (status_code response) @
                          '', '' @ show_nat (content_length response) @ '' bytes)'')
              else (False, ''Unexpected content type: '' @ content_type))
           else if status_code response = 403 then
             (False, ''Access denied (HTTP 403) - API likely commercialized'')
           else if status_code response = 401 then
             (False, ''Authentication required (HTTP 401) - API key needed'')
           else (False, ''HTTP '' @ show_int (status_code response) @ '': '' @
                        take 200 (resp_text response))
       | Timeout m \<Rightarrow> (False, ''Request timeout (10s)'')
       | ConnectionError m \<Rightarrow> (False, ''Connection error: '' @ take 100 m)
       | RequestError m \<Rightarrow> error_result m,
       [HttpGet request]))"

definition marinetraffic_api_request :: http_request where
  "marinetraffic_api_request =
     \<lparr>get_url = ''https://www.marinetraffic.com/en/data/?asset_type=vessels'',
      get_params = [],
      get_headers = [(''User-Agent'', ''Mozilla/5.0'')],
      get_timeout = Some 10\<rparr>"

definition test_marinetraffic_api_simple :: "network \<Rightarrow> probe_result \<times> net_call list" where
  "test_marinetraffic_api_simple net =
     (case http_get net marinetraffic_api_request of
        Response response \<Rightarrow>
          if status_code response = 200
          then (True, ''MarineTraffic website accessible (HTTP '' @
                      show_int (status_code response) @ '')'')
          else (False, ''HTTP '' @ show_int (status_code response))
      | out \<Rightarrow> error_result (exception_text out),
      [HttpGet marinetraffic_api_request])"

definition aishub_request :: http_request where
  "aishub_request =
     \<lparr>get_url = ''https://data.aishub.net/ws.php'',
      get_params = [(''username'', ''DEMO''), (''format'', ''1''),
                    (''output'', ''json''), (''compress'', ''0'')],
      get_headers = [],
      get_timeout = Some 10\<rparr>"

definition test_aishub_api :: "network \<Rightarrow> probe_result \<times> net_call list" where
  "test_aishub_api net =
     (case http_get net aishub_request of
        Response response \<Rightarrow>
          if status_code response = 200 then
            (case resp_json response of
               Inl m \<Rightarrow> (False, ''Invalid JSON response: '' @ take 200 (resp_text response))
             | Inr (JsonList items) \<Rightarrow>
                 if length items > 0
                 then (True, ''AISHub API responding with data ('' @
                             show_nat (length items) @ '' entries)'')
                 else if str_in ''ERROR'' (resp_json_str response)
                 then (False, ''API error: '' @ resp_json_str response)
                 else (True, ''AISHub endpoint accessible (authentication likely required)'')
             | Inr (JsonOther t) \<Rightarrow>
                 if str_in ''ERROR'' (resp_json_str response)
                 then (False, ''API error: '' @ resp_json_str response)
                 else (True, ''AISHub endpoint accessible (authentication likely required)''))
          else if status_code response = 401 then
            (False, ''Authentication required - valid credentials needed'')
          else (False, ''HTTP '' @ show_int (status_code response))
      | out \<Rightarrow> error_result (exception_text out),
      [HttpGet aishub_request])"

definition aisstream_request :: http_request where
  "aisstream_request =
     \<lparr>get_url = ''https://aisstream.io'', get_params = [], get_headers = [],
      get_timeout = Some 10\<rparr>"

definition test_aisstream_websocket :: "network \<Rightarrow> probe_result \<times> net_call list" where
  "test_aisstream_websocket net =
     (case http_get net aisstream_request of
        Response response \<Rightarrow>
          if status_code response = 200
          then (True, ''AISstream.io website accessible (WebSocket API available)'')
          else (False, ''HTTP '' @ show_int (status_code response))
      | out \<Rightarrow> error_result (exception_text out),
      [HttpGet aisstream_request])"

definition base_url :: string where
  "base_url = ''https://map.openseamap.org''"

definition main_page_request :: http_request where
  "main_page_request =
     \<lparr>get_url = base_url, get_params = [], get_headers = [], get_timeout = Some 10\<rparr>"

definition api_directory_request :: http_request where
  "api_directory_request =
     \<lparr>get_url = base_url @ ''/api/'', get_params = [], get_headers = [],
      get_timeout = Some 10\<rparr>"

definition getAIS_request :: http_request where
  "getAIS_request =
     \<lparr>get_url = base_url @ ''/api/getAIS.php'', get_params = [(''bbox'', ''0,0,1,1'')],
      get_headers = [], get_timeout = Some 10\<rparr>"

text \<open>One of the three endpoint checks: the status codes in \<open>accepted\<close> count as success.\<close>

definition endpoint_check :: "network \<Rightarrow> http_request \<Rightarrow> int list \<Rightarrow> probe_result" where
  "endpoint_check net request accepted =
     (case http_get net request of
        Response response \<Rightarrow>
          (List.member accepted (status_code response),
           ''HTTP '' @ show_int (status_code response))
      | out \<Rightarrow> error_result (exception_text out))"

text \<open>The dictionary \<open>results\<close> in insertion order.\<close>

definition test_openseamap_api_endpoints ::
  "network \<Rightarrow> (string \<times> probe_result) list \<times> net_call list" where
  "test_openseamap_api_endpoints net =
     ([(''main_page'', endpoint_check net main_page_request [200]),
       (''api_directory'', endpoint_check net api_directory_request [200, 403]),
       (''getAIS_endpoint'', endpoint_check net getAIS_request [200, 400])],
      [HttpGet main_page_request, HttpGet api_directory_request, HttpGet getAIS_request])"

text \<open>\<open>check_dns_resolution\<close>: one lookup per domain, in order.\<close>

definition resolve :: "network \<Rightarrow> string \<Rightarrow> probe_result" where
  "resolve net domain =
     (case gethostbyname net domain of
        Resolved ip \<Rightarrow> (True, ''Resolves to '' @ ip)
      | GaiError \<Rightarrow> (False, ''DNS resolution failed'')
      | DnsError m \<Rightarrow> error_result m)"

definition check_dns_resolution ::
  "network \<Rightarrow> string list \<Rightarrow> (string \<times> probe_result) list \<times> net_call list" where
  "check_dns_resolution net domains =
     (map (\<lambda>domain. (domain, resolve net domain)) domains, map GetHostByName domains)"

definition github_issues_request :: http_request where
  "github_issues_request =
     \<lparr>get_url = ''https://api.github.com/repos/OpenSeaMap/online_chart/issues'',
      get_params = [(''state'', ''all''), (''per_page'', ''30'')],
      get_headers = [],
      get_timeout = Some 10\<rparr>"

definition is_ais_issue :: "issue \<Rightarrow> bool" where
  "is_ais_issue i =
     (let title = lower (get_default [] (issue_title i)) in
      str_in ''ais'' title \<or> str_in ''marine'' title \<or> str_in ''traffic'' title)"

text \<open>
  The message for the first AIS issue; a missing key raises \<open>KeyError\<close>, whose text is
  the quoted key.
\<close>

definition describe_issues :: "issue list \<Rightarrow> issue \<Rightarrow> probe_result" where
  "describe_issues ais_issues recent =
     (case issue_title recent of
        None \<Rightarrow> error_result (quote @ ''title'' @ quote)
      | Some title \<Rightarrow>
          (case issue_number recent of
             None \<Rightarrow> error_result (quote @ ''number'' @ quote)
           | Some number \<Rightarrow>
               (case issue_state recent of
                  None \<Rightarrow> error_result (quote @ ''state'' @ quote)
                | Some state \<Rightarrow>
                    (True, ''Found '' @ show_nat (length ais_issues) @ '' AIS-related issues. '' @
                           ''Most recent: '' @ quote @ title @ quote @ '' '' @
                           ''(#'' @ show_int number @ '', '' @ state @ '')''))))"

definition analyze_github_issues :: "network \<Rightarrow> probe_result \<times> net_call list" where
  "analyze_github_issues net =
     (case http_get net github_issues_request of
        Response response \<Rightarrow>
          if status_code response = 200 then
            (case resp_json response of
               Inl m \<Rightarrow> error_result m
             | Inr (JsonOther m) \<Rightarrow> error_result m
             | Inr (JsonList issues) \<Rightarrow>
                 (case filter is_ais_issue issues of
                    [] \<Rightarrow> (True, ''No AIS-specific issues found in recent '' @
                                 show_nat (length issues) @ '' issues'')
                  | recent # others \<Rightarrow> describe_issues (recent # others) recent))
          else (False, ''HTTP '' @ show_int (status_code response))
      | out \<Rightarrow> error_result (exception_text out),
      [HttpGet github_issues_request])"


section \<open>Connectivity Prober: recommendations, \<open>main\<close> and the exit status\<close>

text \<open>The dictionary \<open>test_results\<close> that \<open>main\<close> fills, one field per key.\<close>

record test_results =
  marinetraffic_tiles :: probe_result
  marinetraffic_web :: probe_result
  aishub_api :: probe_result
  aisstream :: probe_result
  openseamap_endpoints :: "(string \<times> probe_result) list"
  github_issues :: probe_result

definition rec_commercialized :: string where
  "rec_commercialized =
     ''MarineTraffic tile service is not accessible. This was the primary AIS data source. '' @
     ''MarineTraffic has commercialized their API (requires paid subscription).''"

definition rec_aishub :: string where
  "rec_aishub =
     ''AISHub.net API is accessible and was mentioned as an alternative in Issue #63. '' @
     ''Consider migrating to AISHub (requires registration and data sharing).''"

definition rec_aisstream :: string where
  "rec_aisstream =
     ''AISstream.io is accessible. This is a modern WebSocket-based AIS provider. '' @
     ''Consider this as a potential alternative data source.''"

definition rec_server :: string where
  "rec_server =
     ''OpenSeaMap API endpoints are not responding. This could indicate server issues.''"

definition rec_default :: string where
  "rec_default =
     ''All services appear accessible. The issue may be in the client-side JavaScript '' @
     ''or in API authentication/credentials.''"

text \<open>
  \<open>any(test_results['openseamap_endpoints'].values())\<close> tests each value, a
  \<open>(success, message)\<close> tuple, for truthiness.  A Python tuple is truthy when it is not
  empty, so a pair is truthy whatever its components are.
\<close>

definition tuple_truthy :: "probe_result \<Rightarrow> bool" where
  "tuple_truthy t = True"

definition any_values :: "(string \<times> probe_result) list \<Rightarrow> bool" where
  "any_values d = list_ex tuple_truthy (map snd d)"

text \<open>
  \<open>generate_recommendations\<close>: four independent \<open>if\<close> statements append to the list in
  turn, and a fifth appends the default when the list is still empty.
\<close>

definition generate_recommendations :: "test_results \<Rightarrow> string list" where
  "generate_recommendations tr =
     (let r1 = (if \<not> fst (marinetraffic_tiles tr) then [rec_commercialized] else []);
          r2 = r1 @ (if fst (aishub_api tr) then [rec_aishub] else []);
          r3 = r2 @ (if fst (aisstream tr) then [rec_aisstream] else []);
          r4 = r3 @ (if \<not> any_values (openseamap_endpoints tr) then [rec_server] else [])
      in if r4 = [] then [rec_default] else r4)"

definition critical_domains :: "string list" where
  "critical_domains =
     [''map.openseamap.org'', ''tiles.marinetraffic.com'', ''data.aishub.net'', ''aisstream.io'']"

text \<open>
  The checks of \<open>main\<close> in the order it runs them, with the calls each issued appended
  to the trace.  The tile probe is called with zoom 10.
\<close>

definition run_battery ::
  "network \<Rightarrow> int \<Rightarrow> int \<Rightarrow> ((string \<times> probe_result) list \<times> test_results) \<times> net_call list" where
  "run_battery net x y =
     (case check_dns_resolution net critical_domains of (dns_results, c0) \<Rightarrow>
      case test_marinetraffic_tiles net 10 x y of (tiles, c1) \<Rightarrow>
      case test_marinetraffic_api_simple net of (web, c2) \<Rightarrow>
      case test_aishub_api net of (aishub, c3) \<Rightarrow>
      case test_aisstream_websocket net of (stream, c4) \<Rightarrow>
      case test_openseamap_api_endpoints net of (osm_results, c5) \<Rightarrow>
      case analyze_github_issues net of (github, c6) \<Rightarrow>
        ((dns_results,
          \<lparr>marinetraffic_tiles = tiles, marinetraffic_web = web, aishub_api = aishub,
           aisstream = stream, openseamap_endpoints = osm_results, github_issues = github\<rparr>),
         c0 @ c1 @ c2 @ c3 @ c4 @ c5 @ c6))"

text \<open>
  What \<open>main\<close> reads from outside: the network, the tile indices, and whether writing
  the report file raises.  \<open>main\<close> returns normally (\<open>None\<close>) or with the exception that
  left it; the results, recommendations and call trace come with it.
\<close>

record prober_env =
  net :: network
  tile_x :: int
  tile_y :: int
  prober_report_write :: "py_exc option"

record prober_run =
  dns_results :: "(string \<times> probe_result) list"
  results :: test_results
  recommendations :: "string list"
  calls :: "net_call list"
  raised :: "py_exc option"

definition prober_main :: "prober_env \<Rightarrow> prober_run" where
  "prober_main env =
     (case run_battery (net env) (tile_x env) (tile_y env) of
        ((dns, tr), trace) \<Rightarrow>
          \<lparr>dns_results = dns, results = tr,
           recommendations = generate_recommendations tr,
           calls = trace,
           raised = prober_report_write env\<rparr>)"

text \<open>
  The \<open>__main__\<close> guard: the process status after \<open>main\<close> returned or raised.  Falling
  off the end of the script is status 0.
\<close>

definition prober_exit_code :: "py_exc option \<Rightarrow> int" where
  "prober_exit_code outcome =
     (case outcome of
        None \<Rightarrow> 0
      | Some KeyboardInterrupt \<Rightarrow> 0
      | Some (OtherException m) \<Rightarrow> 1)"

definition prober_process :: "prober_env \<Rightarrow> int" where
  "prober_process env = prober_exit_code (raised (prober_main env))"


section \<open>Notions used to state the properties\<close>

text \<open>
  The identifiers carried by the request events of a log that pass the keyword filter, in
  the order of the log: the events for which \<open>process_log\<close> appends a record.
\<close>

fun relevant_request_ids :: "(string \<times> log_entry) list \<Rightarrow> string list" where
  "relevant_request_ids [] = []"
| "relevant_request_ids ((now, RequestWillBeSent u m rid) # logs) =
     (if any_keyword request_keywords (get_default [] u)
      then get_default [] rid # relevant_request_ids logs
      else relevant_request_ids logs)"
| "relevant_request_ids ((now, entry) # logs) = relevant_request_ids logs"

text \<open>
  The time bound a network call is issued with: the \<open>timeout\<close> argument of a
  \<open>requests.get\<close>; \<open>socket.gethostbyname\<close> has no such argument.
\<close>

definition call_timeout :: "net_call \<Rightarrow> nat option" where
  "call_timeout c = (case c of HttpGet request \<Rightarrow> get_timeout request | GetHostByName d \<Rightarrow> None)"

text \<open>
  A network on which nothing is reachable: every name lookup fails and every request
  ends in a connection error.  It serves as a concrete input.
\<close>

definition offline_network :: network where
  "offline_network =
     \<lparr>http_get = (\<lambda>request. ConnectionError ''Max retries exceeded''),
      gethostbyname = (\<lambda>domain. GaiError)\<rparr>"

text \<open>
  A page on which the checkbox is found by its identifier, not yet selected, and there
  is no View menu; and a run in which every step succeeds and nothing is logged.  They
  serve as concrete inputs.
\<close>

definition example_page :: page where
  "example_page =
     \<lparr>find_element =
        (\<lambda>selector_type selector.
           if selector_type = ID \<and> selector = ''checkLayerAis'' then Found 1 else NoSuchElement),
      selected = (\<lambda>element. False),
      interactable = (\<lambda>element. True),
      clicks = []\<rparr>"

definition example_env :: env where
  "example_env =
     \<lparr>chrome_start = None,
      page_load = Loaded,
      start_page = example_page,
      performance_polls = (\<lambda>p. []),
      browser_log = Inr [],
      screenshot_save = None,
      report_write = None,
      driver_quit = None,
      now_iso = ''2025-12-09T10:36:19'',
      now_stamp = ''20251209_103619''\<rparr>"


section \<open>Properties of \<open>analyze_results\<close>\<close>

lemma found_analyze_request [simp]:
  "ais_requests_found (analyze_request a req) = ais_requests_found a"
  by (simp add: analyze_request_def split: option.splits)

lemma found_foldl [simp]:
  "ais_requests_found (foldl analyze_request a reqs) = ais_requests_found a"
  by (induction reqs arbitrary: a) simp_all

text \<open>Each counter is the number of records that take the corresponding branch of the loop.\<close>

lemma successful_foldl:
  "successful_requests (foldl analyze_request a reqs) =
     successful_requests a +
     length (filter (\<lambda>r. \<not> is_failed r \<and>
               (case status r of None \<Rightarrow> False | Some st \<Rightarrow> 200 \<le> st \<and> st < 300)) reqs)"
  by (induction reqs arbitrary: a) (auto simp: analyze_request_def split: option.splits)

lemma blocked_foldl:
  "blocked_requests (foldl analyze_request a reqs) =
     blocked_requests a +
     length (filter (\<lambda>r. \<not> is_failed r \<and>
               (case status r of None \<Rightarrow> False | Some st \<Rightarrow> st = 401 \<or> st = 403)) reqs)"
  by (induction reqs arbitrary: a) (auto simp: analyze_request_def split: option.splits)

lemma failed_foldl:
  "failed_requests (foldl analyze_request a reqs) =
     failed_requests a +
     length (filter (\<lambda>r. is_failed r \<or>
               (case status r of None \<Rightarrow> False
                | Some st \<Rightarrow> \<not> (200 \<le> st \<and> st < 300) \<and> st \<noteq> 401 \<and> st \<noteq> 403)) reqs)"
  by (induction reqs arbitrary: a) (auto simp: analyze_request_def split: option.splits)

lemma counts_determine_root_cause [simp]:
  "ais_requests_found (determine_root_cause a) = ais_requests_found a"
  "successful_requests (determine_root_cause a) = successful_requests a"
  "failed_requests (determine_root_cause a) = failed_requests a"
  "blocked_requests (determine_root_cause a) = blocked_requests a"
  by (simp_all add: determine_root_cause_def)

lemma counts_analyze_results:
  "ais_requests_found (analyze_results now reqs errs) = length reqs"
  "successful_requests (analyze_results now reqs errs) =
     length (filter (\<lambda>r. \<not> is_failed r \<and>
               (case status r of None \<Rightarrow> False | Some st \<Rightarrow> 200 \<le> st \<and> st < 300)) reqs)"
  "blocked_requests (analyze_results now reqs errs) =
     length (filter (\<lambda>r. \<not> is_failed r \<and>
               (case status r of None \<Rightarrow> False | Some st \<Rightarrow> st = 401 \<or> st = 403)) reqs)"
  "failed_requests (analyze_results now reqs errs) =
     length (filter (\<lambda>r. is_failed r \<or>
               (case status r of None \<Rightarrow> False
                | Some st \<Rightarrow> \<not> (200 \<le> st \<and> st < 300) \<and> st \<noteq> 401 \<and> st \<noteq> 403)) reqs)"
  by (simp_all add: analyze_results_def successful_foldl blocked_foldl failed_foldl
        initial_analysis_def)

lemma counters_sum_le:
  "successful_requests (analyze_results now reqs errs) +
   failed_requests (analyze_results now reqs errs) +
   blocked_requests (analyze_results now reqs errs) \<le> ais_requests_found (analyze_results now reqs errs)"
  unfolding counts_analyze_results
  by (induction reqs) (auto split: option.splits)

lemma messages_distinct:
  "distinct [msg_not_implemented, msg_authentication, msg_connectivity, msg_rendering,
             msg_indeterminate]"
  by (simp add: msg_not_implemented_def msg_authentication_def msg_connectivity_def
        msg_rendering_def msg_indeterminate_def)

text \<open>
  Claim C1.  The root cause in the summary \<open>analyze_results\<close> returns is determined by the
  counts in that summary, by fixed priority: no requests found gives the
  not-implemented message; otherwise at least one blocked request gives the
  authentication message, whatever the failed and successful counts are; otherwise at
  least one failed request gives the connectivity message; otherwise at least one
  successful request gives the rendering message; otherwise the indeterminate message.
\<close>

theorem root_cause_by_priority:
  "root_cause (analyze_results now reqs errs) =
     (if ais_requests_found (analyze_results now reqs errs) = 0 then msg_not_implemented
      else if blocked_requests (analyze_results now reqs errs) \<ge> 1 then msg_authentication
      else if failed_requests (analyze_results now reqs errs) \<ge> 1 then msg_connectivity
      else if successful_requests (analyze_results now reqs errs) \<ge> 1 then msg_rendering
      else msg_indeterminate)"
  by (simp add: analyze_results_def determine_root_cause_def Suc_le_eq)

text \<open>
  At a summary with one blocked, one failed and one successful request the
  authentication message wins.
\<close>

theorem root_cause_by_priority_witness:
  "root_cause (analyze_results ''2025-12-09T10:36:19''
     [(new_record ''t1'' ''https://map.openseamap.org/api/getAIS.php'' ''GET'' ''1'')
        \<lparr>status := Some 200\<rparr>,
      (new_record ''t2'' ''https://tiles.marinetraffic.com/ais_helpers/x'' ''GET'' ''2'')
        \<lparr>failed := Some True, error := Some ''net::ERR_FAILED''\<rparr>,
      (new_record ''t3'' ''https://data.aishub.net/ws.php'' ''GET'' ''3'')
        \<lparr>status := Some 403\<rparr>] []) = msg_authentication"
  using root_cause_by_priority
          [where now = "''2025-12-09T10:36:19''" and errs = "[]" and reqs =
            "[(new_record ''t1'' ''https://map.openseamap.org/api/getAIS.php'' ''GET'' ''1'')
                \<lparr>status := Some 200\<rparr>,
              (new_record ''t2'' ''https://tiles.marinetraffic.com/ais_helpers/x'' ''GET'' ''2'')
                \<lparr>failed := Some True, error := Some ''net::ERR_FAILED''\<rparr>,
              (new_record ''t3'' ''https://data.aishub.net/ws.php'' ''GET'' ''3'')
                \<lparr>status := Some 403\<rparr>]"]
  by (simp add: counts_analyze_results new_record_def is_failed_def)

text \<open>
  Claim C10.  A record with no failed flag and no status is counted in none of the three
  counters while it is counted in \<open>ais_requests_found\<close>, so the three counters then sum
  to strictly less than \<open>ais_requests_found\<close>.  A record with no failed flag whose
  status is outside 200..299 and is neither 401 nor 403 (a 3xx redirect, say) adds one
  to \<open>failed_requests\<close> and nothing to the other two.  Both are stated by comparing
  the summary of a list with the summary of the list without the record.
\<close>

theorem unanswered_and_redirect_counting:
  "(failed req \<noteq> Some True \<and> status req = None \<longrightarrow>
      ais_requests_found (analyze_results now (pre @ req # post) errs) =
        ais_requests_found (analyze_results now (pre @ post) errs) + 1 \<and>
      successful_requests (analyze_results now (pre @ req # post) errs) =
        successful_requests (analyze_results now (pre @ post) errs) \<and>
      failed_requests (analyze_results now (pre @ req # post) errs) =
        failed_requests (analyze_results now (pre @ post) errs) \<and>
      blocked_requests (analyze_results now (pre @ req # post) errs) =
        blocked_requests (analyze_results now (pre @ post) errs) \<and>
      successful_requests (analyze_results now (pre @ req # post) errs) +
      failed_requests (analyze_results now (pre @ req # post) errs) +
      blocked_requests (analyze_results now (pre @ req # post) errs)
        < ais_requests_found (analyze_results now (pre @ req # post) errs)) \<and>
   (failed req \<noteq> Some True \<and> status req = Some st \<and> \<not> (200 \<le> st \<and> st < 300) \<and>
    st \<noteq> 401 \<and> st \<noteq> 403 \<longrightarrow>
      failed_requests (analyze_results now (pre @ req # post) errs) =
        failed_requests (analyze_results now (pre @ post) errs) + 1 \<and>
      successful_requests (analyze_results now (pre @ req # post) errs) =
        successful_requests (analyze_results now (pre @ post) errs) \<and>
      blocked_requests (analyze_results now (pre @ req # post) errs) =
        blocked_requests (analyze_results now (pre @ post) errs))"
proof (intro conjI impI)
  assume h: "failed req \<noteq> Some True \<and> status req = None"
  then show "ais_requests_found (analyze_results now (pre @ req # post) errs) =
        ais_requests_found (analyze_results now (pre @ post) errs) + 1"
    and "successful_requests (analyze_results now (pre @ req # post) errs) =
        successful_requests (analyze_results now (pre @ post) errs)"
    and "failed_requests (analyze_results now (pre @ req # post) errs) =
        failed_requests (analyze_results now (pre @ post) errs)"
    and "blocked_requests (analyze_results now (pre @ req # post) errs) =
        blocked_requests (analyze_results now (pre @ post) errs)"
    by (simp_all add: counts_analyze_results is_failed_def)
  have "successful_requests (analyze_results now (pre @ post) errs) +
        failed_requests (analyze_results now (pre @ post) errs) +
        blocked_requests (analyze_results now (pre @ post) errs) \<le> length (pre @ post)"
    using counters_sum_le [of now "pre @ post" errs] by (simp only: counts_analyze_results(1))
  with h show "successful_requests (analyze_results now (pre @ req # post) errs) +
      failed_requests (analyze_results now (pre @ req # post) errs) +
      blocked_requests (analyze_results now (pre @ req # post) errs)
        < ais_requests_found (analyze_results now (pre @ req # post) errs)"
    by (simp add: counts_analyze_results is_failed_def)
next
  assume "failed req \<noteq> Some True \<and> status req = Some st \<and> \<not> (200 \<le> st \<and> st < 300) \<and>
    st \<noteq> 401 \<and> st \<noteq> 403"
  then show "failed_requests (analyze_results now (pre @ req # post) errs) =
        failed_requests (analyze_results now (pre @ post) errs) + 1"
    and "successful_requests (analyze_results now (pre @ req # post) errs) =
        successful_requests (analyze_results now (pre @ post) errs)"
    and "blocked_requests (analyze_results now (pre @ req # post) errs) =
        blocked_requests (analyze_results now (pre @ post) errs)"
    by (simp_all add: counts_analyze_results is_failed_def)
qed

text \<open>
  A lone request that was never answered is found but not counted; a lone request
  answered with 302 is a failed request.
\<close>

theorem unanswered_and_redirect_counting_witness:
  "ais_requests_found (analyze_results ''t''
      [new_record ''t0'' ''https://x/getAIS.php'' ''GET'' ''7''] []) = 1
   \<and> successful_requests (analyze_results ''t''
      [new_record ''t0'' ''https://x/getAIS.php'' ''GET'' ''7''] []) = 0
   \<and> failed_requests (analyze_results ''t''
      [new_record ''t0'' ''https://x/getAIS.php'' ''GET'' ''7''] []) = 0
   \<and> blocked_requests (analyze_results ''t''
      [new_record ''t0'' ''https://x/getAIS.php'' ''GET'' ''7''] []) = 0
   \<and> failed_requests (analyze_results ''t''
      [(new_record ''t0'' ''https://x/getAIS.php'' ''GET'' ''7'')\<lparr>status := Some 302\<rparr>] []) = 1"
  using unanswered_and_redirect_counting
          [where req = "new_record ''t0'' ''https://x/getAIS.php'' ''GET'' ''7''"
             and now = "''t''" and pre = "[]" and post = "[]" and errs = "[]"]
        unanswered_and_redirect_counting
          [where req = "(new_record ''t0'' ''https://x/getAIS.php'' ''GET'' ''7'')\<lparr>status := Some 302\<rparr>"
             and st = 302 and now = "''t''" and pre = "[]" and post = "[]" and errs = "[]"]
  by (simp add: new_record_def counts_analyze_results)


section \<open>The exit status of the Monitor\<close>



lemma run_complete:
  assumes "chrome_start env = None" "page_load env = Loaded"
    and "capture_network_logs (performance_polls env (snd (enable_ais_layer (start_page env)))) = Inr reqs"
    and "check_javascript_errors env = Inr errs"
    and "take_screenshot env = Inr shot"
    and "report_write env = None" "driver_quit env = None"
  shows "run_full_diagnostic env = Inr (AnalysisResult (analyze_results (now_iso env) reqs errs) shot)"
  using assms
  by (cases "enable_ais_layer (start_page env)")
     (simp add: run_full_diagnostic_def setup_driver_def finally_quit_def diagnostic_body_def
        load_openseamap_def)





lemma getais_request_relevant:
  "any_keyword request_keywords ''https://map.openseamap.org/api/getAIS.php''"
  by code_simp






section \<open>Properties of the capture loop\<close>

lemma ids_process_log:
  "map requestId (process_log recs (now, entry)) =
     map requestId recs @ relevant_request_ids [(now, entry)]"
  by (cases entry) (simp_all add: new_record_def attach_response_def mark_failed_def comp_def)

lemma relevant_request_ids_append:
  "relevant_request_ids (xs @ ys) = relevant_request_ids xs @ relevant_request_ids ys"
  by (induction xs rule: relevant_request_ids.induct) simp_all

lemma ids_foldl:
  "map requestId (foldl process_log recs logs) = map requestId recs @ relevant_request_ids logs"
proof (induction logs arbitrary: recs)
  case Nil
  then show ?case by simp
next
  case (Cons l logs)
  obtain now entry where l: "l = (now, entry)" by (cases l)
  have "relevant_request_ids (l # logs) = relevant_request_ids [l] @ relevant_request_ids logs"
    using relevant_request_ids_append [of "[l]" logs] by simp
  then show ?case
    using Cons.IH [of "process_log recs l"] by (simp add: l ids_process_log)
qed

lemma capture_loop_all_batches:
  "capture_loop recs (map Inr batches) = Inr (foldl process_log recs (concat batches))"
  by (induction batches arbitrary: recs) simp_all

text \<open>
  Claim C6.  The claim as stated fails: a record is appended for every request event
  that passes the filter, with no check for an identifier already present.  What holds:
  at every step of the capture the identifiers of the collected records are exactly the
  identifiers of the accepted request events so far, in order, one record per event; so
  the identifiers are unique among the records at every step when the accepted request
  events of the window carry pairwise distinct identifiers.
\<close>

theorem record_ids_follow_request_events:
  "capture_network_logs (map Inr batches) = Inr (foldl process_log [] (concat batches)) \<and>
   (\<forall>n. map requestId (foldl process_log [] (take n (concat batches))) =
        relevant_request_ids (take n (concat batches))) \<and>
   (distinct (relevant_request_ids (concat batches)) \<longrightarrow>
      (\<forall>n. distinct (map requestId (foldl process_log [] (take n (concat batches))))))"
proof (intro conjI allI impI)
  show "capture_network_logs (map Inr batches) = Inr (foldl process_log [] (concat batches))"
    by (simp add: capture_network_logs_def capture_loop_all_batches)
next
  fix n
  show "map requestId (foldl process_log [] (take n (concat batches))) =
        relevant_request_ids (take n (concat batches))"
    by (simp add: ids_foldl)
next
  fix n
  assume d: "distinct (relevant_request_ids (concat batches))"
  have "relevant_request_ids (concat batches) =
        relevant_request_ids (take n (concat batches)) @
        relevant_request_ids (drop n (concat batches))"
    using relevant_request_ids_append [of "take n (concat batches)" "drop n (concat batches)"]
    by simp
  with d have "distinct (relevant_request_ids (take n (concat batches)))"
    by simp
  then show "distinct (map requestId (foldl process_log [] (take n (concat batches))))"
    by (simp add: ids_foldl)
qed

text \<open>Two request events with one identifier leave two records with that identifier.\<close>

theorem record_ids_follow_request_events_counterexample:
  "map requestId (projr (capture_network_logs
     [Inr [(''t1'', RequestWillBeSent (Some ''https://map.openseamap.org/api/getAIS.php'')
                     (Some ''GET'') (Some ''1000.1'')),
           (''t2'', RequestWillBeSent (Some ''https://map.openseamap.org/api/getAIS.php'')
                     (Some ''GET'') (Some ''1000.1''))] ])) = [''1000.1'', ''1000.1''] \<and>
   \<not> distinct [''1000.1'', ''1000.1'']"
  by (simp add: capture_network_logs_def getais_request_relevant get_default_def new_record_def)

text \<open>Two request events with different identifiers, polled in two batches.\<close>

theorem record_ids_follow_request_events_witness:
  "distinct (relevant_request_ids (concat
     [ [(''t1'', RequestWillBeSent (Some ''https://map.openseamap.org/api/getAIS.php'')
                  (Some ''GET'') (Some ''1000.1''))],
      [(''t2'', RequestWillBeSent (Some ''https://map.openseamap.org/api/getAIS.php'')
                  (Some ''GET'') (Some ''1000.2''))] ])) \<and>
   distinct (map requestId (foldl process_log [] (take 2 (concat
     [ [(''t1'', RequestWillBeSent (Some ''https://map.openseamap.org/api/getAIS.php'')
                  (Some ''GET'') (Some ''1000.1''))],
      [(''t2'', RequestWillBeSent (Some ''https://map.openseamap.org/api/getAIS.php'')
                  (Some ''GET'') (Some ''1000.2''))] ]))))"
proof -
  have d: "distinct (relevant_request_ids (concat
     [ [(''t1'', RequestWillBeSent (Some ''https://map.openseamap.org/api/getAIS.php'')
                  (Some ''GET'') (Some ''1000.1''))],
      [(''t2'', RequestWillBeSent (Some ''https://map.openseamap.org/api/getAIS.php'')
                  (Some ''GET'') (Some ''1000.2''))] ]))"
    by (simp add: getais_request_relevant get_default_def)
  show ?thesis
    using d record_ids_follow_request_events [where batches =
      "[ [(''t1'', RequestWillBeSent (Some ''https://map.openseamap.org/api/getAIS.php'')
                  (Some ''GET'') (Some ''1000.1''))],
        [(''t2'', RequestWillBeSent (Some ''https://map.openseamap.org/api/getAIS.php'')
                  (Some ''GET'') (Some ''1000.2''))] ]"]
    by blast
qed

lemma process_log_length: "length recs \<le> length (process_log recs l)"
  by (cases l, cases "snd l") auto

lemma process_log_keeps:
  assumes "i < length recs"
  shows "requestId (process_log recs l ! i) = requestId (recs ! i)"
    and "failed (recs ! i) = Some True \<Longrightarrow> failed (process_log recs l ! i) = Some True"
    and "error (recs ! i) \<noteq> None \<Longrightarrow> error (process_log recs l ! i) \<noteq> None"
  using assms
  by (cases l, cases "snd l";
      auto simp add: nth_append attach_response_def mark_failed_def)+

lemma foldl_process_log_length: "length recs \<le> length (foldl process_log recs logs)"
proof (induction logs arbitrary: recs)
  case Nil
  then show ?case by simp
next
  case (Cons l logs)
  have "length recs \<le> length (process_log recs l)" by (rule process_log_length)
  also have "\<dots> \<le> length (foldl process_log (process_log recs l) logs)" by (rule Cons.IH)
  finally show ?case by simp
qed

lemma foldl_process_log_keeps:
  "i < length recs \<Longrightarrow>
   requestId (foldl process_log recs logs ! i) = requestId (recs ! i) \<and>
   (failed (recs ! i) = Some True \<longrightarrow> failed (foldl process_log recs logs ! i) = Some True) \<and>
   (error (recs ! i) \<noteq> None \<longrightarrow> error (foldl process_log recs logs ! i) \<noteq> None)"
proof (induction logs arbitrary: recs)
  case Nil
  then show ?case by simp
next
  case (Cons l logs)
  have i: "i < length (process_log recs l)"
    using Cons.prems process_log_length [of recs l] by simp
  show ?case
    using Cons.IH [OF i] process_log_keeps [OF Cons.prems, of l] by simp
qed

lemma length_foldl_process_log:
  "length (foldl process_log recs logs) = length recs + length (relevant_request_ids logs)"
  using arg_cong [OF ids_foldl [of recs logs], of length] by simp

lemma sent_creates_record:
  assumes "any_keyword request_keywords (get_default [] u)"
  shows "process_log recs (t, RequestWillBeSent u m rid) ! length recs =
           new_record t (get_default [] u) (get_default [] m) (get_default [] rid)"
  using assms by simp

lemma failed_marks_record:
  assumes "i < length recs" "requestId (recs ! i) = get_default [] rid"
  shows "failed (process_log recs (t, LoadingFailed rid e) ! i) = Some True"
    and "error (process_log recs (t, LoadingFailed rid e) ! i) = Some (get_default [] e)"
  using assms by (simp_all add: mark_failed_def)


text \<open>
  Claim C8.  The claim as stated fails on the error string: it is the event's
  \<open>errorText\<close>, and the empty string when the event has none.  What holds: the capture
  of a batch of events is the fold of \<open>process_log\<close> over them, and when a request
  event whose URL passes the filter is followed, after any events, by a loading-failed
  event with the same identifier, the record created for the request has its failed flag
  set to true and its error set to the error text of that event (the empty string if the
  event carries none), so the error is non-empty whenever that text is; after any further
  events the record still has its identifier, its failed flag is still true and its error
  is still present.  The record sits at the position given by the number of request
  events accepted before it.
\<close>

theorem loading_failed_marks_record:
  "capture_network_logs [Inr logs] = Inr (foldl process_log [] logs) \<and>
   (any_keyword request_keywords (get_default [] u) \<longrightarrow>
   (let i = length (relevant_request_ids pre);
        out = foldl process_log []
                (pre @ [(t1, RequestWillBeSent u m rid)] @ mid @ [(t2, LoadingFailed rid e)]);
        final = foldl process_log []
                (pre @ [(t1, RequestWillBeSent u m rid)] @ mid @ [(t2, LoadingFailed rid e)] @ post)
    in i < length out \<and> requestId (out ! i) = get_default [] rid \<and>
       failed (out ! i) = Some True \<and> error (out ! i) = Some (get_default [] e) \<and>
       i < length final \<and> requestId (final ! i) = get_default [] rid \<and>
       failed (final ! i) = Some True \<and> error (final ! i) \<noteq> None))"
proof (intro conjI impI)
  show "capture_network_logs [Inr logs] = Inr (foldl process_log [] logs)"
    by (simp add: capture_network_logs_def)
next
  assume rel: "any_keyword request_keywords (get_default [] u)"
  define r0 where "r0 = foldl process_log [] pre"
  define r1 where "r1 = process_log r0 (t1, RequestWillBeSent u m rid)"
  define r2 where "r2 = foldl process_log r1 mid"
  define out where "out = process_log r2 (t2, LoadingFailed rid e)"
  define final where "final = foldl process_log out post"
  define i where "i = length (relevant_request_ids pre)"
  have i0: "length r0 = i"
    by (simp add: r0_def i_def length_foldl_process_log)
  have new: "r1 ! i = new_record t1 (get_default [] u) (get_default [] m) (get_default [] rid)"
    using sent_creates_record [OF rel, of r0 t1 m rid] by (simp add: r1_def i0)
  have i1: "i < length r1"
    using rel by (simp add: r1_def i0)
  have id1: "requestId (r1 ! i) = get_default [] rid"
    by (simp add: new new_record_def)
  have i2: "i < length r2"
    using i1 foldl_process_log_length [of r1 mid] by (simp add: r2_def)
  have id2: "requestId (r2 ! i) = get_default [] rid"
    using foldl_process_log_keeps [OF i1, of mid] id1 by (simp add: r2_def)
  have iout: "i < length out"
    using i2 process_log_length [of r2 "(t2, LoadingFailed rid e)"] by (simp add: out_def)
  have idout: "requestId (out ! i) = get_default [] rid"
    using process_log_keeps(1) [OF i2, of "(t2, LoadingFailed rid e)"] id2 by (simp add: out_def)
  have fout: "failed (out ! i) = Some True"
    using failed_marks_record(1) [OF i2 id2] by (simp add: out_def)
  have eout: "error (out ! i) = Some (get_default [] e)"
    using failed_marks_record(2) [OF i2 id2] by (simp add: out_def)
  have ifin: "i < length final"
    using iout foldl_process_log_length [of out post] by (simp add: final_def)
  have kfin: "requestId (final ! i) = get_default [] rid \<and> failed (final ! i) = Some True \<and>
              error (final ! i) \<noteq> None"
    using foldl_process_log_keeps [OF iout, of post] idout fout eout by (simp add: final_def)
  have out_eq: "foldl process_log []
      (pre @ [(t1, RequestWillBeSent u m rid)] @ mid @ [(t2, LoadingFailed rid e)]) = out"
    by (simp add: out_def r2_def r1_def r0_def)
  have final_eq: "foldl process_log []
      (pre @ [(t1, RequestWillBeSent u m rid)] @ mid @ [(t2, LoadingFailed rid e)] @ post) = final"
    by (simp add: final_def out_def r2_def r1_def r0_def)
  show "let i = length (relevant_request_ids pre);
        out = foldl process_log []
                (pre @ [(t1, RequestWillBeSent u m rid)] @ mid @ [(t2, LoadingFailed rid e)]);
        final = foldl process_log []
                (pre @ [(t1, RequestWillBeSent u m rid)] @ mid @ [(t2, LoadingFailed rid e)] @ post)
    in i < length out \<and> requestId (out ! i) = get_default [] rid \<and>
       failed (out ! i) = Some True \<and> error (out ! i) = Some (get_default [] e) \<and>
       i < length final \<and> requestId (final ! i) = get_default [] rid \<and>
       failed (final ! i) = Some True \<and> error (final ! i) \<noteq> None"
    unfolding Let_def out_eq final_eq i_def [symmetric]
    using iout idout fout eout ifin kfin by simp
qed

text \<open>A loading-failed event without error text leaves the empty string as the error.\<close>

theorem loading_failed_marks_record_counterexample:
  "map error (projr (capture_network_logs
     [Inr [(''t1'', RequestWillBeSent (Some ''https://map.openseamap.org/api/getAIS.php'')
                     (Some ''GET'') (Some ''1000.1'')),
           (''t2'', LoadingFailed (Some ''1000.1'') None)] ])) = [Some [] ] \<and>
   map failed (projr (capture_network_logs
     [Inr [(''t1'', RequestWillBeSent (Some ''https://map.openseamap.org/api/getAIS.php'')
                     (Some ''GET'') (Some ''1000.1'')),
           (''t2'', LoadingFailed (Some ''1000.1'') None)] ])) = [Some True]"
  by (simp add: capture_network_logs_def getais_request_relevant get_default_def new_record_def
        mark_failed_def)

text \<open>A request followed by a refused connection.\<close>

theorem loading_failed_marks_record_witness:
  "any_keyword request_keywords ''https://map.openseamap.org/api/getAIS.php'' \<and>
   map failed (foldl process_log []
     [(''t1'', RequestWillBeSent (Some ''https://map.openseamap.org/api/getAIS.php'')
                     (Some ''GET'') (Some ''1000.1'')),
      (''t2'', LoadingFailed (Some ''1000.1'') (Some ''net::ERR_CONNECTION_REFUSED''))]) = [Some True] \<and>
   map error (foldl process_log []
     [(''t1'', RequestWillBeSent (Some ''https://map.openseamap.org/api/getAIS.php'')
                     (Some ''GET'') (Some ''1000.1'')),
      (''t2'', LoadingFailed (Some ''1000.1'') (Some ''net::ERR_CONNECTION_REFUSED''))]) =
     [Some ''net::ERR_CONNECTION_REFUSED'']"
  using loading_failed_marks_record
          [where u = "Some ''https://map.openseamap.org/api/getAIS.php''" and pre = "[]"
             and mid = "[]" and post = "[]" and logs = "[]"
             and ?t1.0 = "''t1''" and ?t2.0 = "''t2''"
             and m = "Some ''GET''" and rid = "Some ''1000.1''"
             and e = "Some ''net::ERR_CONNECTION_REFUSED''"]
  by (simp add: getais_request_relevant get_default_def new_record_def mark_failed_def)


section \<open>Properties of locating and enabling the checkbox\<close>

lemma click_keeps:
  "click e p = Inr p' \<Longrightarrow> find_element p' = find_element p \<and> interactable p' = interactable p"
  by (auto simp add: click_def split: if_splits)

lemma open_view_menu_keeps [simp]:
  "find_element (open_view_menu p) = find_element p"
  "interactable (open_view_menu p) = interactable p"
  by (auto simp add: open_view_menu_def click_def split: lookup.splits)

lemma find_first_cong:
  "find_element p' = find_element p \<Longrightarrow> find_first p' sels = find_first p sels"
  by (induction sels) (auto split: lookup.splits)

lemma find_ais_checkbox_open_view_menu [simp]:
  "find_ais_checkbox (open_view_menu p) = find_ais_checkbox p"
  unfolding find_ais_checkbox_def by (rule find_first_cong) simp

lemma find_first_at:
  "i < length sels \<Longrightarrow>
   (\<forall>j<i. find_element p (fst (sels ! j)) (snd (sels ! j)) = NoSuchElement) \<Longrightarrow>
   find_element p (fst (sels ! i)) (snd (sels ! i)) = Found e \<Longrightarrow>
   find_first p sels = Inr (Some e)"
proof (induction sels arbitrary: i)
  case Nil
  then show ?case by simp
next
  case (Cons s sels)
  obtain t x where s: "s = (t, x)" by (cases s)
  show ?case
  proof (cases i)
    case 0
    with Cons.prems show ?thesis by (simp add: s)
  next
    case (Suc k)
    have first: "find_element p t x = NoSuchElement"
      using Cons.prems(2) Suc s by fastforce
    have rest: "\<forall>j<k. find_element p (fst (sels ! j)) (snd (sels ! j)) = NoSuchElement"
      using Cons.prems(2) Suc by fastforce
    have "find_first p sels = Inr (Some e)"
      using Cons.IH [of k] Cons.prems(1,3) Suc rest by simp
    then show ?thesis by (simp add: s first)
  qed
qed

lemma find_first_none:
  "(\<forall>s\<in>set sels. find_element p (fst s) (snd s) = NoSuchElement) \<Longrightarrow>
   find_first p sels = Inr None"
  by (induction sels) auto

lemma enable_not_found:
  "find_ais_checkbox p = Inr None \<Longrightarrow> enable_ais_layer p = (False, open_view_menu p)"
  by (simp add: enable_ais_layer_def Let_def)

lemma run_never_error_after_load:
  "chrome_start env = None \<Longrightarrow> page_load env = Loaded \<Longrightarrow>
   run_full_diagnostic env \<noteq> Inr (ErrorResult m)"
  by (cases "enable_ais_layer (start_page env)")
     (simp add: run_full_diagnostic_def setup_driver_def finally_quit_def diagnostic_body_def
        load_openseamap_def split: option.splits sum.splits)


text \<open>
  Claim C7.  The claim as stated fails on the number of strategies: the list has five,
  not four.  What holds: the checkbox is looked for with an ordered list of five
  strategies, the exact identifier, a CSS selector and three XPath expressions (one on
  the identifier attribute, two on label text); the element of the first strategy that
  matches is returned; when no strategy matches, \<open>find_ais_checkbox\<close> returns nothing,
  \<open>enable_ais_layer\<close> reports failure, and a run whose browser started and whose page
  loaded does not end with an error result but goes on to capture and returns the
  analysis of what was captured.
\<close>

theorem checkbox_located_by_first_match:
  "map fst possible_selectors = [ID, CSS, XPATH, XPATH, XPATH] \<and>
   (i < length possible_selectors \<and>
    (\<forall>j<i. find_element p (fst (possible_selectors ! j)) (snd (possible_selectors ! j)) =
            NoSuchElement) \<and>
    find_element p (fst (possible_selectors ! i)) (snd (possible_selectors ! i)) = Found e \<longrightarrow>
      find_ais_checkbox p = Inr (Some e)) \<and>
   ((\<forall>s\<in>set possible_selectors. find_element (start_page env) (fst s) (snd s) = NoSuchElement) \<longrightarrow>
      find_ais_checkbox (start_page env) = Inr None \<and>
      fst (enable_ais_layer (start_page env)) = False \<and>
      (chrome_start env = None \<and> page_load env = Loaded \<longrightarrow>
         (\<forall>msg. run_full_diagnostic env \<noteq> Inr (ErrorResult msg))) \<and>
      (chrome_start env = None \<and> page_load env = Loaded \<and>
       capture_network_logs (performance_polls env (open_view_menu (start_page env))) = Inr reqs \<and>
       check_javascript_errors env = Inr errs \<and> take_screenshot env = Inr shot \<and>
       report_write env = None \<and> driver_quit env = None \<longrightarrow>
         run_full_diagnostic env =
           Inr (AnalysisResult (analyze_results (now_iso env) reqs errs) shot)))"
proof (intro conjI impI allI)
  show "map fst possible_selectors = [ID, CSS, XPATH, XPATH, XPATH]"
    by (simp add: possible_selectors_def)
next
  assume "i < length possible_selectors \<and>
    (\<forall>j<i. find_element p (fst (possible_selectors ! j)) (snd (possible_selectors ! j)) =
            NoSuchElement) \<and>
    find_element p (fst (possible_selectors ! i)) (snd (possible_selectors ! i)) = Found e"
  then show "find_ais_checkbox p = Inr (Some e)"
    unfolding find_ais_checkbox_def using find_first_at [of i possible_selectors p e] by blast
next
  assume none: "\<forall>s\<in>set possible_selectors. find_element (start_page env) (fst s) (snd s) = NoSuchElement"
  show nf: "find_ais_checkbox (start_page env) = Inr None"
    unfolding find_ais_checkbox_def using none by (rule find_first_none)
  show "fst (enable_ais_layer (start_page env)) = False"
    by (simp add: enable_not_found [OF nf])
  {
    fix msg
    assume "chrome_start env = None \<and> page_load env = Loaded"
    then show "run_full_diagnostic env \<noteq> Inr (ErrorResult msg)"
      using run_never_error_after_load [of env msg] by blast
  }
  assume "chrome_start env = None \<and> page_load env = Loaded \<and>
       capture_network_logs (performance_polls env (open_view_menu (start_page env))) = Inr reqs \<and>
       check_javascript_errors env = Inr errs \<and> take_screenshot env = Inr shot \<and>
       report_write env = None \<and> driver_quit env = None"
  then show "run_full_diagnostic env =
           Inr (AnalysisResult (analyze_results (now_iso env) reqs errs) shot)"
    using run_complete [of env reqs errs shot] by (simp add: enable_not_found [OF nf])
qed

text \<open>The list of strategies has five entries.\<close>

theorem checkbox_located_by_first_match_counterexample:
  "length possible_selectors = 5 \<and> length possible_selectors \<noteq> 4"
  by (simp add: possible_selectors_def)

text \<open>
  On the example page the first strategy matches; on a page where nothing matches the
  run completes with the analysis of an empty capture.
\<close>

theorem checkbox_located_by_first_match_witness:
  "find_ais_checkbox example_page = Inr (Some 1) \<and>
   run_full_diagnostic
     (example_env\<lparr>start_page := example_page\<lparr>find_element := (\<lambda>t s. NoSuchElement)\<rparr>\<rparr>) =
     Inr (AnalysisResult (analyze_results ''2025-12-09T10:36:19'' [] [])
            (Some ''openseamap_ais_20251209_103619.png''))"
proof -
  have found: "find_ais_checkbox example_page = Inr (Some 1)"
    using checkbox_located_by_first_match [where i = 0 and p = example_page and e = 1
            and env = example_env]
    by (simp add: possible_selectors_def example_page_def)
  have observe_only:
    "run_full_diagnostic
       (example_env\<lparr>start_page := example_page\<lparr>find_element := (\<lambda>t s. NoSuchElement)\<rparr>\<rparr>) =
     Inr (AnalysisResult (analyze_results ''2025-12-09T10:36:19'' [] [])
            (Some ''openseamap_ais_20251209_103619.png''))"
    using checkbox_located_by_first_match
            [where i = 0 and p = example_page and e = 1 and reqs = "[]" and errs = "[]"
               and shot = "Some ''openseamap_ais_20251209_103619.png''"
               and env = "example_env\<lparr>start_page := example_page\<lparr>find_element := (\<lambda>t s. NoSuchElement)\<rparr>\<rparr>"]
    by (simp add: example_env_def capture_network_logs_def check_javascript_errors_def
          js_error_lines_def take_screenshot_def)
  show ?thesis using found observe_only by simp
qed

lemma enable_success_selected:
  "enable_ais_layer p = (True, q) \<Longrightarrow>
   \<exists>c. find_ais_checkbox p = Inr (Some c) \<and> selected q c \<and>
       find_element q = find_element p \<and> interactable q = interactable p \<and>
       (selected (open_view_menu p) c \<or> interactable p c)"
  by (auto simp add: enable_ais_layer_def Let_def click_def
        split: sum.splits option.splits if_splits)

lemma find_ais_checkbox_cong:
  "find_element q = find_element p \<Longrightarrow> find_ais_checkbox q = find_ais_checkbox p"
  unfolding find_ais_checkbox_def by (rule find_first_cong)

lemma open_view_menu_selected:
  "selected (open_view_menu p) c \<or> (interactable p c \<and> \<not> selected (open_view_menu p) c) \<or>
   (\<not> selected p c \<and> \<not> selected (open_view_menu p) c)"
  by (auto simp add: open_view_menu_def click_def split: lookup.splits)

lemma open_view_menu_other:
  "find_element p XPATH view_menu_selector \<noteq> Found c \<Longrightarrow>
   selected (open_view_menu p) c = selected p c \<and>
   count_list (clicks (open_view_menu p)) c = count_list (clicks p) c"
  by (auto simp add: open_view_menu_def click_def split: lookup.splits)

text \<open>
  Claim C9.  The number of clicks on the checkbox is counted in the click log.  When the
  checkbox is found and already selected (and the View menu is not the checkbox itself),
  \<open>enable_ais_layer\<close> reports success, performs no click on the checkbox and leaves it
  selected.  When it is found, not selected and can be clicked, it is clicked exactly
  once, success is reported and it ends selected.  So after a successful call a second
  call succeeds, performs no click on the checkbox and leaves it selected.  Whatever the
  View menu is, after a successful call the checkbox is selected, and a second call
  succeeds and leaves it selected.
\<close>

theorem enable_clicks_only_when_unselected:
  "(find_ais_checkbox p = Inr (Some c) \<and> find_element p XPATH view_menu_selector \<noteq> Found c \<and>
    selected p c \<longrightarrow>
      enable_ais_layer p = (True, open_view_menu p) \<and>
      count_list (clicks (snd (enable_ais_layer p))) c = count_list (clicks p) c \<and>
      selected (snd (enable_ais_layer p)) c) \<and>
   (find_ais_checkbox p = Inr (Some c) \<and> find_element p XPATH view_menu_selector \<noteq> Found c \<and>
    \<not> selected p c \<and> interactable p c \<longrightarrow>
      fst (enable_ais_layer p) = True \<and>
      count_list (clicks (snd (enable_ais_layer p))) c = count_list (clicks p) c + 1 \<and>
      selected (snd (enable_ais_layer p)) c) \<and>
   (find_ais_checkbox p = Inr (Some c) \<and> find_element p XPATH view_menu_selector \<noteq> Found c \<and>
    enable_ais_layer p = (True, q) \<longrightarrow>
      selected q c \<and>
      fst (enable_ais_layer q) = True \<and>
      count_list (clicks (snd (enable_ais_layer q))) c = count_list (clicks q) c \<and>
      selected (snd (enable_ais_layer q)) c) \<and>
   (enable_ais_layer p = (True, q) \<longrightarrow>
      (\<exists>c. find_ais_checkbox q = Inr (Some c) \<and> selected q c \<and>
           fst (enable_ais_layer q) = True \<and> selected (snd (enable_ais_layer q)) c))"
proof -
  have already: "enable_ais_layer p = (True, open_view_menu p) \<and>
      count_list (clicks (snd (enable_ais_layer p))) c = count_list (clicks p) c \<and>
      selected (snd (enable_ais_layer p)) c"
    if "find_ais_checkbox p = Inr (Some c)"
      and "find_element p XPATH view_menu_selector \<noteq> Found c" and "selected p c"
    for p c
    using that open_view_menu_other [of p c]
    by (simp add: enable_ais_layer_def Let_def)
  have fresh: "fst (enable_ais_layer p) = True \<and>
      count_list (clicks (snd (enable_ais_layer p))) c = count_list (clicks p) c + 1 \<and>
      selected (snd (enable_ais_layer p)) c"
    if "find_ais_checkbox p = Inr (Some c)"
      and "find_element p XPATH view_menu_selector \<noteq> Found c"
      and "\<not> selected p c" and "interactable p c"
    using that open_view_menu_other [of p c]
    by (simp add: enable_ais_layer_def Let_def click_def)
  have after: "\<exists>c. find_ais_checkbox q = Inr (Some c) \<and> selected q c \<and>
           fst (enable_ais_layer q) = True \<and> selected (snd (enable_ais_layer q)) c"
    if e: "enable_ais_layer p = (True, q)"
  proof -
    obtain c where c: "find_ais_checkbox p = Inr (Some c)" "selected q c"
        "find_element q = find_element p" "interactable q = interactable p"
      using enable_success_selected [OF e] by blast
    have fq: "find_ais_checkbox q = Inr (Some c)"
      using c(1) find_ais_checkbox_cong [OF c(3)] by simp
    have "fst (enable_ais_layer q) = True \<and> selected (snd (enable_ais_layer q)) c"
    proof (cases "selected (open_view_menu q) c")
      case True
      then show ?thesis using fq by (simp add: enable_ais_layer_def Let_def)
    next
      case False
      then have "interactable q c"
        using open_view_menu_selected [of q c] c(2) by blast
      with False fq show ?thesis
        by (simp add: enable_ais_layer_def Let_def click_def)
    qed
    with fq c(2) show ?thesis by blast
  qed
  have twice: "selected q c \<and> fst (enable_ais_layer q) = True \<and>
      count_list (clicks (snd (enable_ais_layer q))) c = count_list (clicks q) c \<and>
      selected (snd (enable_ais_layer q)) c"
    if f: "find_ais_checkbox p = Inr (Some c)"
      and v: "find_element p XPATH view_menu_selector \<noteq> Found c"
      and e: "enable_ais_layer p = (True, q)"
  proof -
    obtain c' where c': "find_ais_checkbox p = Inr (Some c')" "selected q c'"
        "find_element q = find_element p"
      using enable_success_selected [OF e] by blast
    have "c' = c" using f c'(1) by simp
    then have sq: "selected q c" using c'(2) by simp
    have fq: "find_ais_checkbox q = Inr (Some c)"
      using f find_ais_checkbox_cong [OF c'(3)] by simp
    have vq: "find_element q XPATH view_menu_selector \<noteq> Found c"
      using v c'(3) by simp
    have "enable_ais_layer q = (True, open_view_menu q)"
      and "count_list (clicks (snd (enable_ais_layer q))) c = count_list (clicks q) c"
      and "selected (snd (enable_ais_layer q)) c"
      using already [OF fq vq sq] by blast+
    with sq show ?thesis by simp
  qed
  show ?thesis
    using already [of p c] fresh twice after by blast
qed

text \<open>
  On the example page the first call clicks the checkbox once; the second call, on the
  page the first one left, changes nothing.
\<close>

theorem enable_clicks_only_when_unselected_witness:
  "enable_ais_layer example_page =
     (True, example_page\<lparr>selected := (selected example_page)(1 := True), clicks := [1]\<rparr>) \<and>
   count_list (clicks (snd (enable_ais_layer example_page))) 1 = 1 \<and>
   selected (snd (enable_ais_layer example_page)) 1 \<and>
   enable_ais_layer (example_page\<lparr>selected := (selected example_page)(1 := True), clicks := [1]\<rparr>) =
     (True, example_page\<lparr>selected := (selected example_page)(1 := True), clicks := [1]\<rparr>) \<and>
   count_list (clicks (snd (enable_ais_layer
     (example_page\<lparr>selected := (selected example_page)(1 := True), clicks := [1]\<rparr>)))) 1 = 1"
proof -
  let ?q = "example_page\<lparr>selected := (selected example_page)(1 := True), clicks := [1]\<rparr>"
  have found0: "find_ais_checkbox example_page = Inr (Some 1)"
    by (simp add: find_ais_checkbox_def possible_selectors_def example_page_def)
  have menu0: "find_element example_page XPATH view_menu_selector \<noteq> Found 1"
    by (simp add: example_page_def)
  have run1: "enable_ais_layer example_page = (True, ?q)"
    by (simp add: enable_ais_layer_def open_view_menu_def find_ais_checkbox_def
          possible_selectors_def example_page_def click_def)
  have first: "count_list (clicks (snd (enable_ais_layer example_page))) 1 = 1 \<and>
      selected (snd (enable_ais_layer example_page)) 1"
    using enable_clicks_only_when_unselected [where p = example_page and c = 1 and q = ?q]
      menu0 found0
    by (simp add: example_page_def)
  have menu: "open_view_menu ?q = ?q"
    by (simp add: open_view_menu_def example_page_def)
  have menu1: "find_element ?q XPATH view_menu_selector \<noteq> Found 1"
    by (simp add: example_page_def)
  have found: "find_ais_checkbox ?q = Inr (Some 1)"
    by (simp add: find_ais_checkbox_def possible_selectors_def example_page_def)
  have second: "enable_ais_layer ?q = (True, ?q)"
    using enable_clicks_only_when_unselected [where p = ?q and c = 1 and q = ?q]
      menu menu1 found
    by simp
  have again: "count_list (clicks (snd (enable_ais_layer ?q))) 1 = count_list (clicks ?q) 1"
    using enable_clicks_only_when_unselected [where p = example_page and c = 1 and q = ?q]
      run1 menu0 found0
    by blast
  show ?thesis using run1 first second again by simp
qed


section \<open>Properties of the Prober\<close>

lemma recommendation_texts_distinct:
  "distinct [rec_commercialized, rec_aishub, rec_aisstream, rec_server, rec_default]"
  by (simp add: rec_commercialized_def rec_aishub_def rec_aisstream_def rec_server_def
        rec_default_def)

lemma raised_prober_main: "raised (prober_main env) = prober_report_write env"
  by (simp add: prober_main_def split: prod.splits)

text \<open>
  Claim C3.  The claim as stated fails: the \<open>__main__\<close> guard exits with status 1 when an
  exception other than \<open>KeyboardInterrupt\<close> leaves \<open>main\<close>.  What holds: the Prober
  exits 0 when \<open>main\<close> returns and when it is interrupted from the keyboard, and 1 when
  another exception leaves \<open>main\<close>; the status does not depend on the network, so no
  probe outcome reaches it.
\<close>

theorem prober_exit_status:
  "prober_process env =
     (case prober_report_write env of
        None \<Rightarrow> 0
      | Some KeyboardInterrupt \<Rightarrow> 0
      | Some (OtherException m) \<Rightarrow> 1) \<and>
   prober_process (env\<lparr>net := n\<rparr>) = prober_process env"
  by (simp add: prober_process_def raised_prober_main prober_exit_code_def)

text \<open>Writing the report file fails: the process exits with status 1, not 0.\<close>

theorem prober_exit_status_counterexample:
  "prober_process
     \<lparr>net = offline_network, tile_x = 511, tile_y = 340,
      prober_report_write = Some (OtherException ''[Errno 13] Permission denied'')\<rparr> = 1"
  by (simp add: prober_process_def raised_prober_main prober_exit_code_def)

text \<open>With nothing reachable and the report written, the status is 0.\<close>

theorem prober_exit_status_witness:
  "prober_process \<lparr>net = offline_network, tile_x = 511, tile_y = 340,
      prober_report_write = None\<rparr> = 0"
  using prober_exit_status [where env = "\<lparr>net = offline_network, tile_x = 511, tile_y = 340,
      prober_report_write = None\<rparr>"]
  by simp

text \<open>
  The list as a whole: with a tile failure, a reachable alternative or an empty endpoint
  dictionary the messages of the conditions that hold, in the order of the checks;
  otherwise the default alone.
\<close>

lemma gen_cases:
  "generate_recommendations tr =
     (if \<not> fst (marinetraffic_tiles tr) \<or> fst (aishub_api tr) \<or> fst (aisstream tr) \<or>
         openseamap_endpoints tr = []
      then (if \<not> fst (marinetraffic_tiles tr) then [rec_commercialized] else []) @
           (if fst (aishub_api tr) then [rec_aishub] else []) @
           (if fst (aisstream tr) then [rec_aisstream] else []) @
           (if openseamap_endpoints tr = [] then [rec_server] else [])
      else [rec_default])"
  by (cases "openseamap_endpoints tr")
     (simp_all add: generate_recommendations_def any_values_def tuple_truthy_def Let_def)


text \<open>
  The endpoint results never trigger the server message: the values tested are pairs, so
  \<open>any\<close> is false only for an empty dictionary, whatever the success flags are.
\<close>

lemma server_message_iff:
  "(rec_server \<in> set (generate_recommendations tr)) = (openseamap_endpoints tr = [])"
  using recommendation_texts_distinct by (auto simp add: gen_cases)

text \<open>
  Claim C4.  The claim as stated fails: the checks are independent \<open>if\<close> statements that
  append to one list, not an \<open>if\<close>/\<open>else\<close> chain, so several messages can be issued
  together.  What holds: the list is a function of the Probe Results; the commercialized
  message is in it exactly when the tile probe failed, the AISHub message exactly when
  AISHub is reachable, the AISstream message exactly when AISstream is reachable; the
  default message is in it exactly when none of the other four messages is; and the
  messages come in the fixed order of the checks.
\<close>

theorem recommendations_accumulate:
  "(rec_commercialized \<in> set (generate_recommendations tr)) = (\<not> fst (marinetraffic_tiles tr)) \<and>
   (rec_aishub \<in> set (generate_recommendations tr)) = fst (aishub_api tr) \<and>
   (rec_aisstream \<in> set (generate_recommendations tr)) = fst (aisstream tr) \<and>
   (rec_default \<in> set (generate_recommendations tr)) =
     (rec_commercialized \<notin> set (generate_recommendations tr) \<and>
      rec_aishub \<notin> set (generate_recommendations tr) \<and>
      rec_aisstream \<notin> set (generate_recommendations tr) \<and>
      rec_server \<notin> set (generate_recommendations tr)) \<and>
   generate_recommendations tr =
     filter (\<lambda>m. m \<in> set (generate_recommendations tr))
       [rec_commercialized, rec_aishub, rec_aisstream, rec_server, rec_default]"
  using recommendation_texts_distinct by (auto simp add: gen_cases)

text \<open>A failed tile probe and a reachable AISHub give two messages at once.\<close>

theorem recommendations_accumulate_counterexample:
  "generate_recommendations
     \<lparr>marinetraffic_tiles = (False, ''Access denied (HTTP 403) - API likely commercialized''),
      marinetraffic_web = (False, ''HTTP 403''),
      aishub_api = (True, ''AISHub endpoint accessible (authentication likely required)''),
      aisstream = (False, ''HTTP 503''),
      openseamap_endpoints =
        [(''main_page'', (True, ''HTTP 200'')), (''api_directory'', (True, ''HTTP 403'')),
         (''getAIS_endpoint'', (True, ''HTTP 200''))],
      github_issues = (False, ''HTTP 403'')\<rparr> = [rec_commercialized, rec_aishub]"
  by (simp add: generate_recommendations_def any_values_def tuple_truthy_def)

text \<open>
  With the tile service reachable and neither alternative reachable the default message
  is the only one.
\<close>

theorem recommendations_accumulate_witness:
  "generate_recommendations
     \<lparr>marinetraffic_tiles = (True, ''Tile service responding (HTTP 200, 5120 bytes)''),
      marinetraffic_web = (True, ''MarineTraffic website accessible (HTTP 200)''),
      aishub_api = (False, ''HTTP 503''),
      aisstream = (False, ''HTTP 503''),
      openseamap_endpoints =
        [(''main_page'', (True, ''HTTP 200'')), (''api_directory'', (True, ''HTTP 403'')),
         (''getAIS_endpoint'', (True, ''HTTP 200''))],
      github_issues = (False, ''HTTP 403'')\<rparr> = [rec_default]"
  using recommendations_accumulate
          [where tr = "\<lparr>marinetraffic_tiles = (True, ''Tile service responding (HTTP 200, 5120 bytes)''),
      marinetraffic_web = (True, ''MarineTraffic website accessible (HTTP 200)''),
      aishub_api = (False, ''HTTP 503''),
      aisstream = (False, ''HTTP 503''),
      openseamap_endpoints =
        [(''main_page'', (True, ''HTTP 200'')), (''api_directory'', (True, ''HTTP 403'')),
         (''getAIS_endpoint'', (True, ''HTTP 200''))],
      github_issues = (False, ''HTTP 403'')\<rparr>"]
  by (simp add: generate_recommendations_def any_values_def tuple_truthy_def)

lemma run_battery_calls:
  "snd (run_battery nw x y) =
     map GetHostByName critical_domains @
     [HttpGet (marinetraffic_tiles_request 10 x y), HttpGet marinetraffic_api_request,
      HttpGet aishub_request, HttpGet aisstream_request,
      HttpGet main_page_request, HttpGet api_directory_request, HttpGet getAIS_request,
      HttpGet github_issues_request]"
  by (simp add: run_battery_def check_dns_resolution_def test_marinetraffic_tiles_def
        test_marinetraffic_api_simple_def test_aishub_api_def test_aisstream_websocket_def
        test_openseamap_api_endpoints_def analyze_github_issues_def Let_def)

lemma calls_prober_main: "calls (prober_main env) = snd (run_battery (net env) (tile_x env) (tile_y env))"
  by (simp add: prober_main_def split: prod.splits)

lemma http_requests_distinct:
  "distinct [marinetraffic_tiles_request 10 x y, marinetraffic_api_request,
      aishub_request, aisstream_request,
      main_page_request, api_directory_request, getAIS_request,
      github_issues_request]"
  by (simp add: marinetraffic_tiles_request_def marinetraffic_api_request_def aishub_request_def
        aisstream_request_def main_page_request_def api_directory_request_def getAIS_request_def
        github_issues_request_def base_url_def)

text \<open>
  Claim C5.  The claim as stated fails for the name lookups: \<open>socket.gethostbyname\<close> is
  called with the host name only, so no 10-second bound is passed.  What holds: whatever
  the network answers, a run issues exactly twelve calls, each once and in a fixed order:
  the four name lookups, with no time bound, and eight HTTP requests, each with a timeout
  of 10 seconds.
\<close>

theorem battery_calls_once_with_timeouts:
  "calls (prober_main env) =
     map GetHostByName critical_domains @
     map HttpGet
       [marinetraffic_tiles_request 10 (tile_x env) (tile_y env), marinetraffic_api_request,
        aishub_request, aisstream_request,
        main_page_request, api_directory_request, getAIS_request,
        github_issues_request] \<and>
   distinct (calls (prober_main env)) \<and>
   map call_timeout (calls (prober_main env)) = replicate 4 None @ replicate 8 (Some 10)"
proof (intro conjI)
  show c: "calls (prober_main env) =
     map GetHostByName critical_domains @
     map HttpGet
       [marinetraffic_tiles_request 10 (tile_x env) (tile_y env), marinetraffic_api_request,
        aishub_request, aisstream_request,
        main_page_request, api_directory_request, getAIS_request,
        github_issues_request]"
    by (simp add: calls_prober_main run_battery_calls)
  have "distinct critical_domains"
    by (simp add: critical_domains_def)
  then show "distinct (calls (prober_main env))"
    unfolding c using http_requests_distinct [of "tile_x env" "tile_y env"]
    by (auto simp add: distinct_map inj_on_def)
  show "map call_timeout (calls (prober_main env)) = replicate 4 None @ replicate 8 (Some 10)"
    unfolding c
    by (simp add: call_timeout_def critical_domains_def numeral_eq_Suc
          marinetraffic_tiles_request_def marinetraffic_api_request_def aishub_request_def
          aisstream_request_def main_page_request_def api_directory_request_def
          getAIS_request_def github_issues_request_def)
qed

text \<open>The first four calls of a run, the name lookups, carry no time bound.\<close>

theorem battery_calls_counterexample:
  "map call_timeout
     (take 4 (calls (prober_main \<lparr>net = offline_network, tile_x = 511, tile_y = 340,
                                 prober_report_write = None\<rparr>))) = [None, None, None, None]"
  by (simp add: calls_prober_main run_battery_calls critical_domains_def call_timeout_def)

text \<open>With nothing reachable the run still issues its twelve calls.\<close>

theorem battery_calls_once_with_timeouts_witness:
  "length (calls (prober_main \<lparr>net = offline_network, tile_x = 511, tile_y = 340,
                                prober_report_write = None\<rparr>)) = 12"
  using battery_calls_once_with_timeouts
          [where env = "\<lparr>net = offline_network, tile_x = 511, tile_y = 340,
                         prober_report_write = None\<rparr>"]
  by (simp add: critical_domains_def)


end
